theory Spec2Isabelle
  imports Complex_Main "HOL-Library.AList"
begin

section \<open>Python values, errors and the file system\<close>

text \<open>
  The configuration documents are what \<^verbatim>\<open>yaml.safe_load\<close> returns: \<^verbatim>\<open>None\<close>, booleans,
  integers, floats, strings, lists and dictionaries. A dictionary is an association list in
  insertion order, looked up with \<open>map_of\<close> and written with \<open>AList.update\<close> (which, like
  Python, overwrites in place or appends a new key at the end). \<open>PPath\<close> is a
  \<^verbatim>\<open>pathlib.Path\<close>, which \<^verbatim>\<open>main\<close> stores in the validated dictionary. A path is its list of
  components.
\<close>

type_synonym path = "string list"

datatype pyval =
    PNone
  | PBool bool
  | PInt int
  | PFloat real
  | PStr string
  | PList "pyval list"
  | PDict "(pyval \<times> pyval) list"
  | PPath path

text \<open>The classes named on the right of \<^verbatim>\<open>isinstance\<close> in the source.\<close>

datatype pytype = bool_t | dict_t | list_t | int_t | str_t

text \<open>
  The messages of \<^verbatim>\<open>ConfigError\<close>, one constructor for each f-string of the source, carrying
  the values interpolated into it.
\<close>

datatype config_msg =
    ErrorReadingYaml path string
      \<comment> \<open>\<^verbatim>\<open>Error reading YAML file {yaml_path}: {exc}\<close>\<close>
  | YamlFileNotFound path
      \<comment> \<open>\<^verbatim>\<open>YAML file not found: {yaml_path}\<close>\<close>
  | MissingRequiredKey string path
      \<comment> \<open>\<^verbatim>\<open>Missing required key '{key}' in {config_yaml_path}\<close>\<close>
  | InvalidType string path string
      \<comment> \<open>\<^verbatim>\<open>Invalid type for key '{key}' in {config_yaml_path}. Expected {expected_type.__name__}.\<close>\<close>
  | ExperienceLevelNotBool string path
      \<comment> \<open>\<^verbatim>\<open>Experience level '{level}' must be a boolean in {config_path}\<close>\<close>
  | JobTypeNotBool string path
      \<comment> \<open>\<^verbatim>\<open>Job type '{job_type}' must be a boolean in {config_path}\<close>\<close>
  | DateFilterNotBool string path
      \<comment> \<open>\<^verbatim>\<open>Date filter '{date_filter}' must be a boolean in {config_path}\<close>\<close>
  | NotListOfStrings string path
      \<comment> \<open>\<^verbatim>\<open>'{key}' must be a list of strings in {config_path}\<close>\<close>
  | InvalidDistance pyval path
      \<comment> \<open>\<^verbatim>\<open>Invalid distance value '{distance}' in {config_path}. Must be one of: ...\<close>\<close>
  | BlacklistNotList string path
      \<comment> \<open>\<^verbatim>\<open>'{blacklist}' must be a list in {config_path}\<close>\<close>
  | MissingSecret string path
      \<comment> \<open>\<^verbatim>\<open>Missing secret '{secret}' in {secrets_yaml_path}\<close>\<close>
  | SecretEmpty string path
      \<comment> \<open>\<^verbatim>\<open>Secret '{secret}' cannot be empty in {secrets_yaml_path}\<close>\<close>

datatype fnf_msg =
    DataFolderNotFound path
      \<comment> \<open>\<^verbatim>\<open>Data folder not found: {app_data_folder}\<close>\<close>
  | MissingFilesInDataFolder "string list"
      \<comment> \<open>\<^verbatim>\<open>Missing files in data folder: {', '.join(missing_files)}\<close>\<close>
  | PlainTextResumeNotFound path
      \<comment> \<open>\<^verbatim>\<open>Plain text resume file not found: {plain_text_resume_file}\<close>\<close>
  | NoSuchFileOrDirectory path
      \<comment> \<open>raised by \<^verbatim>\<open>open\<close> itself\<close>

text \<open>
  Every exception the modelled code can raise. \<open>TypeError\<close> carries the Python type name of
  the object the operation was applied to, \<open>KeyError\<close> the key, \<open>OSError\<close> the path that
  \<^verbatim>\<open>open\<close> or \<^verbatim>\<open>mkdir\<close> failed on (\<^verbatim>\<open>IOError\<close> is \<^verbatim>\<open>OSError\<close> in Python 3), and
  \<open>CollaboratorError\<close> whatever an external collaborator raised.
\<close>

datatype error =
    ConfigError config_msg
  | FileNotFoundError fnf_msg
  | TypeError string
  | KeyError string
  | AttributeError string
  | OSError path
  | BinasciiError string
  | ValueError string
  | CollaboratorError string

datatype node = Dir | File string

type_synonym filesystem = "path \<Rightarrow> node option"

definition is_dir :: "filesystem \<Rightarrow> path \<Rightarrow> bool" where
  "is_dir fs p = (fs p = Some Dir)"

definition exists :: "filesystem \<Rightarrow> path \<Rightarrow> bool" where
  "exists fs p = (fs p \<noteq> None)"

text \<open>\<^verbatim>\<open>folder / name\<close> for a relative name of one component.\<close>

definition join :: "path \<Rightarrow> string \<Rightarrow> path" where
  "join p name = p @ [name]"

definition and_then :: "error + 'a \<Rightarrow> ('a \<Rightarrow> error + 'b) \<Rightarrow> error + 'b" where
  "and_then m f = (case m of Inl e \<Rightarrow> Inl e | Inr x \<Rightarrow> f x)"

section \<open>The Python operations the validator uses\<close>

fun type_name :: "pyval \<Rightarrow> string" where
  "type_name PNone = ''NoneType''"
| "type_name (PBool _) = ''bool''"
| "type_name (PInt _) = ''int''"
| "type_name (PFloat _) = ''float''"
| "type_name (PStr _) = ''str''"
| "type_name (PList _) = ''list''"
| "type_name (PDict _) = ''dict''"
| "type_name (PPath _) = ''PosixPath''"

fun class_name :: "pytype \<Rightarrow> string" where
  "class_name bool_t = ''bool''"
| "class_name dict_t = ''dict''"
| "class_name list_t = ''list''"
| "class_name int_t = ''int''"
| "class_name str_t = ''str''"

text \<open>\<^verbatim>\<open>isinstance(v, t)\<close>: \<^verbatim>\<open>bool\<close> is a subclass of \<^verbatim>\<open>int\<close>.\<close>

fun isinstance :: "pyval \<Rightarrow> pytype \<Rightarrow> bool" where
  "isinstance (PBool _) bool_t = True"
| "isinstance (PBool _) int_t = True"
| "isinstance (PInt _) int_t = True"
| "isinstance (PStr _) str_t = True"
| "isinstance (PList _) list_t = True"
| "isinstance (PDict _) dict_t = True"
| "isinstance _ _ = False"

fun starts_with :: "string \<Rightarrow> string \<Rightarrow> bool" where
  "starts_with s [] = True"
| "starts_with [] (c # cs) = False"
| "starts_with (a # s) (c # cs) = (a = c \<and> starts_with s cs)"

fun is_substring :: "string \<Rightarrow> string \<Rightarrow> bool" where
  "is_substring k [] = (k = [])"
| "is_substring k (c # cs) = (starts_with (c # cs) k \<or> is_substring k cs)"

text \<open>\<^verbatim>\<open>key in obj\<close> for a string key.\<close>

fun py_contains :: "string \<Rightarrow> pyval \<Rightarrow> error + bool" where
  "py_contains key (PDict d) = Inr (map_of d (PStr key) \<noteq> None)"
| "py_contains key (PList xs) = Inr (PStr key \<in> set xs)"
| "py_contains key (PStr s) = Inr (is_substring key s)"
| "py_contains key v = Inl (TypeError (type_name v))"

text \<open>\<^verbatim>\<open>obj[key]\<close> for a string key.\<close>

fun py_getitem :: "pyval \<Rightarrow> string \<Rightarrow> error + pyval" where
  "py_getitem (PDict d) key =
     (case map_of d (PStr key) of None \<Rightarrow> Inl (KeyError key) | Some v \<Rightarrow> Inr v)"
| "py_getitem v key = Inl (TypeError (type_name v))"

text \<open>\<^verbatim>\<open>obj[key] = value\<close> for a string key.\<close>

fun py_setitem :: "pyval \<Rightarrow> string \<Rightarrow> pyval \<Rightarrow> error + pyval" where
  "py_setitem (PDict d) key v = Inr (PDict (AList.update (PStr key) v d))"
| "py_setitem obj key v = Inl (TypeError (type_name obj))"

text \<open>\<^verbatim>\<open>obj.get(key)\<close>.\<close>

fun py_get :: "pyval \<Rightarrow> string \<Rightarrow> error + pyval" where
  "py_get (PDict d) key =
     Inr (case map_of d (PStr key) of None \<Rightarrow> PNone | Some v \<Rightarrow> v)"
| "py_get v key = Inl (AttributeError (type_name v))"

text \<open>The items a \<^verbatim>\<open>for\<close> over the object yields.\<close>

fun py_iter :: "pyval \<Rightarrow> error + pyval list" where
  "py_iter (PList xs) = Inr xs"
| "py_iter (PDict d) = Inr (map fst d)"
| "py_iter (PStr s) = Inr (map (\<lambda>c. PStr [c]) s)"
| "py_iter v = Inl (TypeError (type_name v))"


section \<open>ConfigValidator\<close>

definition REQUIRED_CONFIG_KEYS :: "(string \<times> pytype) list" where
  "REQUIRED_CONFIG_KEYS =
     [(''remote'', bool_t),
      (''experience_level'', dict_t),
      (''job_types'', dict_t),
      (''date'', dict_t),
      (''positions'', list_t),
      (''locations'', list_t),
      (''location_blacklist'', list_t),
      (''distance'', int_t),
      (''company_blacklist'', list_t),
      (''title_blacklist'', list_t)]"

definition EXPERIENCE_LEVELS :: "string list" where
  "EXPERIENCE_LEVELS =
     [''internship'', ''entry'', ''associate'', ''mid_senior_level'', ''director'',
      ''executive'']"

definition JOB_TYPES :: "string list" where
  "JOB_TYPES =
     [''full_time'', ''contract'', ''part_time'', ''temporary'', ''internship'', ''other'',
      ''volunteer'']"

definition DATE_FILTERS :: "string list" where
  "DATE_FILTERS = [''all_time'', ''month'', ''week'', ''24_hours'']"

definition APPROVED_DISTANCES :: "int set" where
  "APPROVED_DISTANCES = {0, 5, 10, 25, 50, 100}"

text \<open>
  The list literal \<^verbatim>\<open>["company_blacklist", "title_blacklist", "location_blacklist"]\<close>, written
  three times in the source.
\<close>

definition BLACKLIST_KEYS :: "string list" where
  "BLACKLIST_KEYS = [''company_blacklist'', ''title_blacklist'', ''location_blacklist'']"

text \<open>
  \<^verbatim>\<open>load_yaml\<close>: \<^verbatim>\<open>open\<close> on the path, then \<^verbatim>\<open>yaml.safe_load\<close>. The parser is the external
  library and is a parameter: it answers a file content with the message of a
  \<^verbatim>\<open>yaml.YAMLError\<close> or with the parsed value. Only \<^verbatim>\<open>YAMLError\<close> and
  \<^verbatim>\<open>FileNotFoundError\<close> are turned into \<^verbatim>\<open>ConfigError\<close>; opening a directory raises an
  \<^verbatim>\<open>OSError\<close> that passes through.
\<close>

type_synonym yaml_parser = "string \<Rightarrow> string + pyval"

definition load_yaml :: "yaml_parser \<Rightarrow> filesystem \<Rightarrow> path \<Rightarrow> error + pyval" where
  "load_yaml safe_load fs yaml_path =
     (case fs yaml_path of
        None \<Rightarrow> Inl (ConfigError (YamlFileNotFound yaml_path))
      | Some Dir \<Rightarrow> Inl (OSError yaml_path)
      | Some (File stream) \<Rightarrow>
          (case safe_load stream of
             Inl exc \<Rightarrow> Inl (ConfigError (ErrorReadingYaml yaml_path exc))
           | Inr v \<Rightarrow> Inr v))"

text \<open>One iteration of the loop over \<^verbatim>\<open>REQUIRED_CONFIG_KEYS.items()\<close>.\<close>

definition check_required_key :: "path \<Rightarrow> pyval \<Rightarrow> string \<times> pytype \<Rightarrow> error + pyval" where
  "check_required_key config_yaml_path parameters item =
     (case item of (key, expected_type) \<Rightarrow>
        and_then (py_contains key parameters) (\<lambda>present.
          if \<not> present then
            (if key \<in> set BLACKLIST_KEYS then py_setitem parameters key (PList [])
             else Inl (ConfigError (MissingRequiredKey key config_yaml_path)))
          else
            and_then (py_getitem parameters key) (\<lambda>v.
              if \<not> isinstance v expected_type then
                (if key \<in> set BLACKLIST_KEYS \<and> v = PNone
                 then py_setitem parameters key (PList [])
                 else Inl (ConfigError
                        (InvalidType key config_yaml_path (class_name expected_type))))
              else Inr parameters)))"

fun required_keys_pass :: "path \<Rightarrow> pyval \<Rightarrow> (string \<times> pytype) list \<Rightarrow> error + pyval" where
  "required_keys_pass config_yaml_path parameters [] = Inr parameters"
| "required_keys_pass config_yaml_path parameters (item # items) =
     and_then (check_required_key config_yaml_path parameters item)
       (\<lambda>parameters'. required_keys_pass config_yaml_path parameters' items)"

text \<open>
  The three loops over a list of flag names: each name must be bound to a boolean in the
  nested dictionary (\<^verbatim>\<open>.get\<close> gives \<^verbatim>\<open>None\<close> for an absent name).
\<close>

fun validate_experience_levels_loop :: "pyval \<Rightarrow> path \<Rightarrow> string list \<Rightarrow> error + unit" where
  "validate_experience_levels_loop experience_levels config_path [] = Inr ()"
| "validate_experience_levels_loop experience_levels config_path (level # levels) =
     and_then (py_get experience_levels level) (\<lambda>v.
       if \<not> isinstance v bool_t
       then Inl (ConfigError (ExperienceLevelNotBool level config_path))
       else validate_experience_levels_loop experience_levels config_path levels)"

definition validate_experience_levels :: "pyval \<Rightarrow> path \<Rightarrow> error + unit" where
  "validate_experience_levels experience_levels config_path =
     validate_experience_levels_loop experience_levels config_path EXPERIENCE_LEVELS"

fun validate_job_types_loop :: "pyval \<Rightarrow> path \<Rightarrow> string list \<Rightarrow> error + unit" where
  "validate_job_types_loop job_types config_path [] = Inr ()"
| "validate_job_types_loop job_types config_path (job_type # rest) =
     and_then (py_get job_types job_type) (\<lambda>v.
       if \<not> isinstance v bool_t
       then Inl (ConfigError (JobTypeNotBool job_type config_path))
       else validate_job_types_loop job_types config_path rest)"

definition validate_job_types :: "pyval \<Rightarrow> path \<Rightarrow> error + unit" where
  "validate_job_types job_types config_path =
     validate_job_types_loop job_types config_path JOB_TYPES"

fun validate_date_filters_loop :: "pyval \<Rightarrow> path \<Rightarrow> string list \<Rightarrow> error + unit" where
  "validate_date_filters_loop date_filters config_path [] = Inr ()"
| "validate_date_filters_loop date_filters config_path (date_filter # rest) =
     and_then (py_get date_filters date_filter) (\<lambda>v.
       if \<not> isinstance v bool_t
       then Inl (ConfigError (DateFilterNotBool date_filter config_path))
       else validate_date_filters_loop date_filters config_path rest)"

definition validate_date_filters :: "pyval \<Rightarrow> path \<Rightarrow> error + unit" where
  "validate_date_filters date_filters config_path =
     validate_date_filters_loop date_filters config_path DATE_FILTERS"

fun validate_list_of_strings :: "pyval \<Rightarrow> string list \<Rightarrow> path \<Rightarrow> error + unit" where
  "validate_list_of_strings parameters [] config_path = Inr ()"
| "validate_list_of_strings parameters (key # keys) config_path =
     and_then (py_getitem parameters key) (\<lambda>v.
       and_then (py_iter v) (\<lambda>items.
         if \<not> list_all (\<lambda>item. isinstance item str_t) items
         then Inl (ConfigError (NotListOfStrings key config_path))
         else validate_list_of_strings parameters keys config_path))"

text \<open>
  \<^verbatim>\<open>distance in APPROVED_DISTANCES\<close>: membership in a set of integers compares by value, so
  \<^verbatim>\<open>False\<close> is found as 0 and \<^verbatim>\<open>5.0\<close> as 5; a list or a dictionary cannot be hashed.
\<close>

fun in_approved_distances :: "pyval \<Rightarrow> error + bool" where
  "in_approved_distances (PInt n) = Inr (n \<in> APPROVED_DISTANCES)"
| "in_approved_distances (PBool b) = Inr ((if b then 1 else 0) \<in> APPROVED_DISTANCES)"
| "in_approved_distances (PFloat r) = Inr (r \<in> real_of_int ` APPROVED_DISTANCES)"
| "in_approved_distances (PList xs) = Inl (TypeError ''list'')"
| "in_approved_distances (PDict d) = Inl (TypeError ''dict'')"
| "in_approved_distances v = Inr False"

definition validate_distance :: "pyval \<Rightarrow> path \<Rightarrow> error + unit" where
  "validate_distance distance config_path =
     and_then (in_approved_distances distance) (\<lambda>approved.
       if \<not> approved then Inl (ConfigError (InvalidDistance distance config_path))
       else Inr ())"

fun validate_blacklists_loop :: "pyval \<Rightarrow> path \<Rightarrow> string list \<Rightarrow> error + pyval" where
  "validate_blacklists_loop parameters config_path [] = Inr parameters"
| "validate_blacklists_loop parameters config_path (blacklist # rest) =
     and_then (py_get parameters blacklist) (\<lambda>v.
       if \<not> isinstance v list_t
       then Inl (ConfigError (BlacklistNotList blacklist config_path))
       else
         and_then (py_getitem parameters blacklist) (\<lambda>w.
           and_then (if w = PNone then py_setitem parameters blacklist (PList [])
                     else Inr parameters)
             (\<lambda>parameters'. validate_blacklists_loop parameters' config_path rest)))"

definition validate_blacklists :: "pyval \<Rightarrow> path \<Rightarrow> error + pyval" where
  "validate_blacklists parameters config_path =
     validate_blacklists_loop parameters config_path BLACKLIST_KEYS"

text \<open>
  The body of \<^verbatim>\<open>validate_config\<close> after the document is loaded: the loop over the
  required keys, then the six calls, then \<^verbatim>\<open>return parameters\<close>.
\<close>

definition check_parameters :: "path \<Rightarrow> pyval \<Rightarrow> error + pyval" where
  "check_parameters config_yaml_path parameters0 =
     and_then (required_keys_pass config_yaml_path parameters0 REQUIRED_CONFIG_KEYS)
       (\<lambda>parameters.
     and_then (py_getitem parameters ''experience_level'') (\<lambda>experience_level.
     and_then (validate_experience_levels experience_level config_yaml_path) (\<lambda>_.
     and_then (py_getitem parameters ''job_types'') (\<lambda>job_types.
     and_then (validate_job_types job_types config_yaml_path) (\<lambda>_.
     and_then (py_getitem parameters ''date'') (\<lambda>date.
     and_then (validate_date_filters date config_yaml_path) (\<lambda>_.
     and_then (validate_list_of_strings parameters [''positions'', ''locations'']
                 config_yaml_path) (\<lambda>_.
     and_then (py_getitem parameters ''distance'') (\<lambda>distance.
     and_then (validate_distance distance config_yaml_path) (\<lambda>_.
     validate_blacklists parameters config_yaml_path))))))))))"

definition validate_config :: "yaml_parser \<Rightarrow> filesystem \<Rightarrow> path \<Rightarrow> error + pyval" where
  "validate_config safe_load fs config_yaml_path =
     and_then (load_yaml safe_load fs config_yaml_path) (check_parameters config_yaml_path)"



section \<open>FileManager\<close>

text \<open>
  Modelled from the spec: the module \<^verbatim>\<open>src.utils.constants\<close> is not among the sources, so
  the three required file names (secrets, work preferences, plain-text resume) are
  parameters.
\<close>

record constants =
  SECRETS_YAML :: string
  WORK_PREFERENCES_YAML :: string
  PLAIN_TEXT_RESUME_YAML :: string

definition REQUIRED_FILES :: "constants \<Rightarrow> string list" where
  "REQUIRED_FILES c = [SECRETS_YAML c, WORK_PREFERENCES_YAML c, PLAIN_TEXT_RESUME_YAML c]"

text \<open>
  \<^verbatim>\<open>output_folder.mkdir(exist_ok=True)\<close>: nothing to do for a directory, an error for a
  file in its place or a missing parent, a new directory otherwise.
\<close>

definition mkdir_exist_ok :: "filesystem \<Rightarrow> path \<Rightarrow> error + filesystem" where
  "mkdir_exist_ok fs p =
     (case fs p of
        Some Dir \<Rightarrow> Inr fs
      | Some (File _) \<Rightarrow> Inl (OSError p)
      | None \<Rightarrow> if is_dir fs (butlast p) then Inr (fs(p \<mapsto> Dir)) else Inl (OSError p))"

definition validate_data_folder ::
  "constants \<Rightarrow> filesystem \<Rightarrow> path \<Rightarrow> (error + path \<times> path \<times> path \<times> path) \<times> filesystem" where
  "validate_data_folder c fs app_data_folder =
     (if \<not> is_dir fs app_data_folder
      then (Inl (FileNotFoundError (DataFolderNotFound app_data_folder)), fs)
      else
        let missing_files =
              filter (\<lambda>file. \<not> exists fs (join app_data_folder file)) (REQUIRED_FILES c)
        in if missing_files \<noteq> []
           then (Inl (FileNotFoundError (MissingFilesInDataFolder missing_files)), fs)
           else
             let output_folder = join app_data_folder ''output'' in
             (case mkdir_exist_ok fs output_folder of
                Inl e \<Rightarrow> (Inl e, fs)
              | Inr fs' \<Rightarrow>
                  (Inr (join app_data_folder (SECRETS_YAML c),
                        join app_data_folder (WORK_PREFERENCES_YAML c),
                        join app_data_folder (PLAIN_TEXT_RESUME_YAML c),
                        output_folder), fs')))"

definition get_uploads :: "filesystem \<Rightarrow> path \<Rightarrow> error + pyval" where
  "get_uploads fs plain_text_resume_file =
     (if \<not> exists fs plain_text_resume_file
      then Inl (FileNotFoundError (PlainTextResumeNotFound plain_text_resume_file))
      else Inr (PDict [(PStr ''plainTextResume'', PPath plain_text_resume_file)]))"

section \<open>Decoding the payload\<close>

text \<open>
  \<^verbatim>\<open>base64.b64decode\<close> belongs to the Python standard library. The dispatch functions take
  the decoder as a parameter; \<open>b64decode\<close> below describes the library function as the
  source calls it, with the default \<^verbatim>\<open>validate=False\<close>: a string is first encoded as ASCII
  (\<^verbatim>\<open>ValueError\<close> for any other character), then \<^verbatim>\<open>binascii.a2b_base64\<close> runs over the bytes
  in its lenient mode, which skips every character outside the alphabet, stops at a
  completed pad sequence, and raises \<^verbatim>\<open>binascii.Error\<close> only when the data characters it
  kept leave a quad unfinished.
\<close>

definition b64_index :: "char \<Rightarrow> nat option" where
  "b64_index c =
     (let n = (of_char c :: nat) in
      if 65 \<le> n \<and> n \<le> 90 then Some (n - 65)
      else if 97 \<le> n \<and> n \<le> 122 then Some (n - 71)
      else if 48 \<le> n \<and> n \<le> 57 then Some (n + 4)
      else if n = 43 then Some 62
      else if n = 47 then Some 63
      else None)"

text \<open>
  The loop of \<^verbatim>\<open>a2b_base64\<close>: \<open>quad_pos\<close> counts the data characters of the current quad,
  \<open>pads\<close> the pad characters seen since the last data character, \<open>leftchar\<close> holds the bits
  not yet written, \<open>out\<close> the bytes written so far.
\<close>

fun a2b_base64 :: "string \<Rightarrow> nat \<Rightarrow> nat \<Rightarrow> nat \<Rightarrow> string \<Rightarrow> error + string" where
  "a2b_base64 [] quad_pos pads leftchar out =
     (if quad_pos \<noteq> 0 then
        (if quad_pos = 1 then Inl (BinasciiError ''Invalid base64-encoded string'')
         else Inl (BinasciiError ''Incorrect padding''))
      else Inr out)"
| "a2b_base64 (c # cs) quad_pos pads leftchar out =
     (if c = CHR ''='' then
        (if quad_pos \<ge> 2 then
           (if quad_pos + (pads + 1) \<ge> 4 then Inr out
            else a2b_base64 cs quad_pos (pads + 1) leftchar out)
         else a2b_base64 cs quad_pos pads leftchar out)
      else
        (case b64_index c of
           None \<Rightarrow> a2b_base64 cs quad_pos pads leftchar out
         | Some this_ch \<Rightarrow>
             (if quad_pos = 0 then a2b_base64 cs 1 0 this_ch out
              else if quad_pos = 1 then
                a2b_base64 cs 2 0 (this_ch mod 16)
                  (out @ [char_of (leftchar * 4 + this_ch div 16)])
              else if quad_pos = 2 then
                a2b_base64 cs 3 0 (this_ch mod 4)
                  (out @ [char_of (leftchar * 16 + this_ch div 4)])
              else
                a2b_base64 cs 0 0 0 (out @ [char_of (leftchar * 64 + this_ch)]))))"

definition b64decode :: "string \<Rightarrow> error + string" where
  "b64decode s =
     (if \<not> list_all (\<lambda>c. (of_char c :: nat) < 128) s
      then Inl (ValueError ''string argument should contain only ASCII characters'')
      else a2b_base64 s 0 0 0 [])"

text \<open>
  Base64 text as RFC 4648 defines it, for comparison with what the decoder accepts: whole
  quads of alphabet characters, the last quad ending in at most two pad characters.
\<close>

definition valid_base64 :: "string \<Rightarrow> bool" where
  "valid_base64 s =
     (length s mod 4 = 0 \<and>
      list_all (\<lambda>c. b64_index c \<noteq> None) (takeWhile (\<lambda>c. c \<noteq> CHR ''='') s) \<and>
      dropWhile (\<lambda>c. c \<noteq> CHR ''='') s \<in> set [[], ''='', ''==''])"

section \<open>Creating the resume\<close>

definition ACTION_MAPPING :: "(string \<times> string) list" where
  "ACTION_MAPPING =
     [(''resume'', ''Generate Resume''),
      (''job'', ''Generate Resume Tailored for Job Description''),
      (''cover'', ''Generate Tailored Cover Letter for Job Description'')]"

definition STYLE_MAPPING :: "(string \<times> string) list" where
  "STYLE_MAPPING =
     [(''clean-blue'', ''Clean Blue''),
      (''modern-blue'', ''Modern Blue''),
      (''modern-grey'', ''Modern Grey''),
      (''default'', ''Default''),
      (''cloyola-grey'', ''Cloyola Grey'')]"

text \<open>The calls of the logger in \<^verbatim>\<open>prompt_style_selection\<close> and \<^verbatim>\<open>create_resume_pdf\<close>.\<close>

datatype log_event =
    GeneratingCV
  | NoStylesAvailable
  | UsingSelectedStyle string
  | NoStyleSelected
  | ErrorDecodingBase64 error
  | ResumeSavedAt path
  | ErrorWritingFile error
  | ErrorCreatingCV error

record world =
  files :: filesystem
  logged :: "log_event list"

definition emit :: "log_event \<Rightarrow> world \<Rightarrow> world" where
  "emit ev w = w\<lparr>logged := logged w @ [ev]\<rparr>"

text \<open>
  What the external collaborators answer during one run: the styles the style manager
  reports (name, file name, author link), the answers of the interactive prompt (\<open>None\<close>
  when it is interrupted), the outcome of building the resume (constructing the generator,
  the resume object, the browser and the facade, then \<^verbatim>\<open>create_resume_pdf\<close> of the facade),
  and the time stamp \<^verbatim>\<open>datetime.now().strftime("%Y%m%d_%H%M%S")\<close>. They are not among the
  sources and their own effects are outside the modelled world.
\<close>

record collaborators =
  get_styles :: "(string \<times> string \<times> string) list"
  prompt_answer :: "(string \<times> string) list option"
  build_result :: "error + string"
  timestamp :: string

definition prompt_style_selection :: "collaborators \<Rightarrow> world \<Rightarrow> string option \<times> world" where
  "prompt_style_selection env w =
     (let available_styles = get_styles env in
      if available_styles = [] then (None, emit NoStylesAvailable w)
      else
        (case prompt_answer env of
           None \<Rightarrow> (None, w)
         | Some style_answer \<Rightarrow>
             (case (if style_answer \<noteq> [] then map_of style_answer ''style'' else None) of
                None \<Rightarrow> (None, w)
              | Some selected_choice \<Rightarrow>
                  (find (\<lambda>style_name. starts_with selected_choice style_name)
                     (map fst available_styles), w))))"

definition get_output_filename :: "string \<Rightarrow> string \<Rightarrow> string option \<Rightarrow> string \<Rightarrow> string" where
  "get_output_filename action style custom_filename now =
     (case (case custom_filename of None \<Rightarrow> None
            | Some f \<Rightarrow> if f \<noteq> [] then Some f else None) of
        Some f \<Rightarrow> f
      | None \<Rightarrow>
          let action_name =
                (case find (\<lambda>kv. snd kv = action) ACTION_MAPPING of
                   Some kv \<Rightarrow> fst kv | None \<Rightarrow> ''output'')
          in action_name @ ''_'' @ style @ ''_'' @ now @ ''.pdf'')"

text \<open>
  A path given as a string is split at the slashes; absolute and relative paths are not
  told apart.
\<close>

fun path_parts :: "string \<Rightarrow> string \<Rightarrow> path" where
  "path_parts [] acc = (if acc = [] then [] else [acc])"
| "path_parts (c # cs) acc =
     (if c = CHR ''/'' then (if acc = [] then [] else [acc]) @ path_parts cs []
      else path_parts cs (acc @ [c]))"

fun as_path :: "pyval \<Rightarrow> error + path" where
  "as_path (PPath p) = Inr p"
| "as_path (PStr s) = Inr (path_parts s [])"
| "as_path v = Inl (TypeError (type_name v))"

text \<open>\<^verbatim>\<open>open(parameters["uploads"]["plainTextResume"], "r").read()\<close>.\<close>

definition read_plain_text_resume :: "pyval \<Rightarrow> filesystem \<Rightarrow> error + string" where
  "read_plain_text_resume parameters fs =
     and_then (py_getitem parameters ''uploads'') (\<lambda>uploads.
     and_then (py_getitem uploads ''plainTextResume'') (\<lambda>f.
     and_then (as_path f) (\<lambda>p.
       case fs p of
         Some (File text) \<Rightarrow> Inr text
       | Some Dir \<Rightarrow> Inl (OSError p)
       | None \<Rightarrow> Inl (FileNotFoundError (NoSuchFileOrDirectory p)))))"

text \<open>\<^verbatim>\<open>open(output_path, "wb")\<close> and \<^verbatim>\<open>file.write(pdf_data)\<close>.\<close>

definition write_binary :: "filesystem \<Rightarrow> path \<Rightarrow> string \<Rightarrow> error + filesystem" where
  "write_binary fs output_path pdf_data =
     (if is_dir fs output_path \<or> \<not> is_dir fs (butlast output_path)
      then Inl (OSError output_path)
      else Inr (fs(output_path \<mapsto> File pdf_data)))"

text \<open>
  The style block: a style given by the caller and listed in \<^verbatim>\<open>STYLE_MAPPING\<close> is used,
  otherwise the user is asked, and \<^verbatim>\<open>"default"\<close> stands in when nothing is chosen.
\<close>

definition select_style :: "collaborators \<Rightarrow> string option \<Rightarrow> world \<Rightarrow> string \<times> world" where
  "select_style env style_name w =
     (case (case style_name of None \<Rightarrow> None
            | Some s \<Rightarrow> if s \<noteq> [] \<and> s \<in> set (map fst STYLE_MAPPING) then Some s
                        else None) of
        Some s \<Rightarrow> (s, emit (UsingSelectedStyle s) w)
      | None \<Rightarrow>
          (case prompt_style_selection env w of
             (Some selected_style, w') \<Rightarrow>
               if selected_style \<noteq> [] then (selected_style, w')
               else (''default'', emit NoStyleSelected w')
           | (None, w') \<Rightarrow> (''default'', emit NoStyleSelected w')))"

text \<open>
  The body of the outer \<^verbatim>\<open>try\<close> of \<^verbatim>\<open>create_resume_pdf\<close>. The inner handler of the decoding
  catches \<^verbatim>\<open>binascii.Error\<close> only, the inner handler of the write every \<^verbatim>\<open>IOError\<close>; both log
  and raise again.
\<close>

definition create_resume_pdf_try ::
  "(string \<Rightarrow> error + string) \<Rightarrow> collaborators \<Rightarrow> pyval \<Rightarrow> string \<Rightarrow> string option \<Rightarrow>
   string option \<Rightarrow> world \<Rightarrow> (error + unit) \<times> world" where
  "create_resume_pdf_try decode env parameters llm_api_key style_name output_filename w0 =
     (let w1 = emit GeneratingCV w0 in
      case read_plain_text_resume parameters (files w1) of
        Inl e \<Rightarrow> (Inl e, w1)
      | Inr plain_text_resume \<Rightarrow>
          (case select_style env style_name w1 of (style, w2) \<Rightarrow>
             (case build_result env of
                Inl e \<Rightarrow> (Inl e, w2)
              | Inr result_base64 \<Rightarrow>
                  (case decode result_base64 of
                     Inl e \<Rightarrow>
                       (Inl e, (case e of BinasciiError _ \<Rightarrow> emit (ErrorDecodingBase64 e) w2
                                | _ \<Rightarrow> w2))
                   | Inr pdf_data \<Rightarrow>
                       (let name = (case (case output_filename of None \<Rightarrow> None
                                          | Some f \<Rightarrow> if f \<noteq> [] then Some f else None) of
                                      Some f \<Rightarrow> f
                                    | None \<Rightarrow>
                                        get_output_filename ''Generate Resume'' style None
                                          (timestamp env))
                        in case and_then (py_getitem parameters ''outputFileDirectory'') as_path of
                             Inl e \<Rightarrow> (Inl e, w2)
                           | Inr output_dir \<Rightarrow>
                               (let output_path = join output_dir name in
                                case write_binary (files w2) output_path pdf_data of
                                  Inl e \<Rightarrow> (Inl e, emit (ErrorWritingFile e) w2)
                                | Inr fs' \<Rightarrow>
                                    (Inr (), emit (ResumeSavedAt output_path)
                                               (w2\<lparr>files := fs'\<rparr>))))))))"

definition create_resume_pdf ::
  "(string \<Rightarrow> error + string) \<Rightarrow> collaborators \<Rightarrow> pyval \<Rightarrow> string \<Rightarrow> string option \<Rightarrow>
   string option \<Rightarrow> world \<Rightarrow> (error + unit) \<times> world" where
  "create_resume_pdf decode env parameters llm_api_key style_name output_filename w =
     (case create_resume_pdf_try decode env parameters llm_api_key style_name
             output_filename w of
        (Inl e, w') \<Rightarrow> (Inl e, emit (ErrorCreatingCV e) w')
      | (Inr u, w') \<Rightarrow> (Inr u, w'))"

section \<open>Auxiliary notions for stating the properties\<close>

text \<open>
  What one iteration of the required-key loop decides about a dictionary: the key passes
  when it is bound to a value of the expected class, or when it is a blacklist key that is
  absent or bound to \<^verbatim>\<open>None\<close>; otherwise the iteration raises the error \<open>key_error\<close>; a
  passing iteration leaves the dictionary as \<open>default_key\<close> gives it.
\<close>

definition key_ok :: "(pyval \<times> pyval) list \<Rightarrow> string \<times> pytype \<Rightarrow> bool" where
  "key_ok d item =
     (case item of (key, expected_type) \<Rightarrow>
        (case map_of d (PStr key) of
           None \<Rightarrow> key \<in> set BLACKLIST_KEYS
         | Some v \<Rightarrow> isinstance v expected_type \<or> (key \<in> set BLACKLIST_KEYS \<and> v = PNone)))"

definition key_error :: "path \<Rightarrow> (pyval \<times> pyval) list \<Rightarrow> string \<times> pytype \<Rightarrow> error" where
  "key_error p d item =
     (case item of (key, expected_type) \<Rightarrow>
        (case map_of d (PStr key) of
           None \<Rightarrow> ConfigError (MissingRequiredKey key p)
         | Some v \<Rightarrow> ConfigError (InvalidType key p (class_name expected_type))))"

definition default_key ::
  "string \<times> pytype \<Rightarrow> (pyval \<times> pyval) list \<Rightarrow> (pyval \<times> pyval) list" where
  "default_key item d =
     (case item of (key, expected_type) \<Rightarrow>
        (case map_of d (PStr key) of
           None \<Rightarrow> AList.update (PStr key) (PList []) d
         | Some v \<Rightarrow> if isinstance v expected_type then d
                     else AList.update (PStr key) (PList []) d))"

text \<open>
  The verdict of each later stage of \<^verbatim>\<open>validate_config\<close> on a document taken by itself: the
  argument expression of the call, then the call.
\<close>

definition experience_levels_stage :: "path \<Rightarrow> pyval \<Rightarrow> error + unit" where
  "experience_levels_stage p ps =
     and_then (py_getitem ps ''experience_level'') (\<lambda>v. validate_experience_levels v p)"

definition job_types_stage :: "path \<Rightarrow> pyval \<Rightarrow> error + unit" where
  "job_types_stage p ps =
     and_then (py_getitem ps ''job_types'') (\<lambda>v. validate_job_types v p)"

definition date_filters_stage :: "path \<Rightarrow> pyval \<Rightarrow> error + unit" where
  "date_filters_stage p ps =
     and_then (py_getitem ps ''date'') (\<lambda>v. validate_date_filters v p)"

definition string_lists_stage :: "path \<Rightarrow> pyval \<Rightarrow> error + unit" where
  "string_lists_stage p ps = validate_list_of_strings ps [''positions'', ''locations''] p"

definition distance_stage :: "path \<Rightarrow> pyval \<Rightarrow> error + unit" where
  "distance_stage p ps =
     and_then (py_getitem ps ''distance'') (\<lambda>v. validate_distance v p)"

definition later_stages :: "path \<Rightarrow> pyval \<Rightarrow> (error + unit) list" where
  "later_stages p ps =
     [experience_levels_stage p ps, job_types_stage p ps, date_filters_stage p ps,
      string_lists_stage p ps, distance_stage p ps]"

fun first_failure :: "(error + unit) list \<Rightarrow> error option" where
  "first_failure [] = None"
| "first_failure (Inl e # rest) = Some e"
| "first_failure (Inr u # rest) = first_failure rest"

text \<open>The top-level keys the later stages read.\<close>

definition checked_keys :: "string list" where
  "checked_keys =
     [''experience_level'', ''job_types'', ''date'', ''positions'', ''locations'', ''distance'']"

text \<open>
  The minimal valid configuration of the specification: every required key, the nested
  maps fully populated with booleans (chosen by the arguments), empty lists, distance 0.
\<close>

definition flags :: "string list \<Rightarrow> (string \<Rightarrow> bool) \<Rightarrow> pyval" where
  "flags names value = PDict (map (\<lambda>name. (PStr name, PBool (value name))) names)"

definition minimal_config ::
  "bool \<Rightarrow> (string \<Rightarrow> bool) \<Rightarrow> (string \<Rightarrow> bool) \<Rightarrow> (string \<Rightarrow> bool) \<Rightarrow> (pyval \<times> pyval) list" where
  "minimal_config remote levels types dates =
     [(PStr ''remote'', PBool remote),
      (PStr ''experience_level'', flags EXPERIENCE_LEVELS levels),
      (PStr ''job_types'', flags JOB_TYPES types),
      (PStr ''date'', flags DATE_FILTERS dates),
      (PStr ''positions'', PList []),
      (PStr ''locations'', PList []),
      (PStr ''location_blacklist'', PList []),
      (PStr ''distance'', PInt 0),
      (PStr ''company_blacklist'', PList []),
      (PStr ''title_blacklist'', PList [])]"



text \<open>The messages the five later stages raise.\<close>

definition later_stage_msg :: "config_msg \<Rightarrow> bool" where
  "later_stage_msg m =
     (case m of
        ExperienceLevelNotBool _ _ \<Rightarrow> True
      | JobTypeNotBool _ _ \<Rightarrow> True
      | DateFilterNotBool _ _ \<Rightarrow> True
      | NotListOfStrings _ _ \<Rightarrow> True
      | InvalidDistance _ _ \<Rightarrow> True
      | _ \<Rightarrow> False)"

section \<open>Concrete inputs\<close>

text \<open>
  A parser that answers every file content with the same value, a file system in which
  every path is an empty file, and the path of the configuration file.
\<close>

definition answering :: "pyval \<Rightarrow> yaml_parser" where
  "answering v = (\<lambda>_. Inr v)"

definition every_path_a_file :: filesystem where
  "every_path_a_file = (\<lambda>_. Some (File []))"

definition config_path :: path where
  "config_path = [''data_folder'', ''work_preferences.yaml'']"

definition plain_config :: "(pyval \<times> pyval) list" where
  "plain_config = minimal_config False (\<lambda>_. False) (\<lambda>_. True) (\<lambda>_. False)"

text \<open>
  A document with two violations: \<^verbatim>\<open>job_types\<close> is an empty mapping and \<^verbatim>\<open>distance\<close> is 7.
\<close>

definition two_violations :: "(pyval \<times> pyval) list" where
  "two_violations =
     AList.update (PStr ''distance'') (PInt 7)
       (AList.update (PStr ''job_types'') (PDict []) plain_config)"



text \<open>A document with a null blacklist and one with an absent blacklist.\<close>

definition company_blacklist_null :: "(pyval \<times> pyval) list" where
  "company_blacklist_null = AList.update (PStr ''company_blacklist'') PNone plain_config"

definition title_blacklist_absent :: "(pyval \<times> pyval) list" where
  "title_blacklist_absent = AList.delete (PStr ''title_blacklist'') plain_config"

text \<open>The usual file names, and a data folder that lacks the plain-text resume.\<close>

definition example_constants :: constants where
  "example_constants =
     \<lparr>SECRETS_YAML = ''secrets.yaml'', WORK_PREFERENCES_YAML = ''work_preferences.yaml'',
      PLAIN_TEXT_RESUME_YAML = ''plain_text_resume.yaml''\<rparr>"

definition resume_missing :: filesystem where
  "resume_missing =
     map_of [([''data_folder''], Dir),
             ([''data_folder'', ''secrets.yaml''], File []),
             ([''data_folder'', ''work_preferences.yaml''], File [])]"

text \<open>
  One run of the plain-resume flow: the validated parameters as \<^verbatim>\<open>main\<close> extends them, a data
  folder with the resume and the output directory, a style given by the caller, and
  collaborators whose build returns the given payload.
\<close>

definition example_parameters :: pyval where
  "example_parameters =
     PDict (plain_config @
       [(PStr ''uploads'',
           PDict [(PStr ''plainTextResume'', PPath [''data_folder'', ''plain_text_resume.yaml''])]),
        (PStr ''outputFileDirectory'', PPath [''data_folder'', ''output''])])"

definition example_world :: world where
  "example_world =
     \<lparr>files = map_of [([''data_folder''], Dir),
                       ([''data_folder'', ''plain_text_resume.yaml''], File ''name: Ada''),
                       ([''data_folder'', ''output''], Dir)],
      logged = []\<rparr>"

definition example_env :: "string \<Rightarrow> collaborators" where
  "example_env payload =
     \<lparr>get_styles = [], prompt_answer = None, build_result = Inr payload,
      timestamp = ''20240101_000000''\<rparr>"

section \<open>The required-key pass on a dictionary\<close>

lemma and_then_simps [simp]:
  "and_then (Inl e) f = Inl e"
  "and_then (Inr x) f = f x"
  by (simp_all add: and_then_def)

lemma check_required_key_dict:
  "check_required_key p (PDict d) item =
     (if key_ok d item then Inr (PDict (default_key item d)) else Inl (key_error p d item))"
  by (cases item)
     (auto simp: check_required_key_def key_ok_def key_error_def default_key_def
           split: option.splits)

lemma lk_default_key:
  "map_of (default_key item d) x =
     (if x = PStr (fst item) \<and> (case map_of d x of None \<Rightarrow> True | Some v \<Rightarrow> \<not> isinstance v (snd item))
      then Some (PList []) else map_of d x)"
  by (cases item) (auto simp: default_key_def update_conv' split: option.splits)

lemma key_ok_default_key:
  "fst item' \<noteq> fst item \<Longrightarrow> key_ok (default_key item d) item' = key_ok d item'"
  by (cases item; cases item') (simp add: key_ok_def lk_default_key)

lemma key_error_default_key:
  "fst item' \<noteq> fst item \<Longrightarrow> key_error p (default_key item d) item' = key_error p d item'"
  by (cases item; cases item') (simp add: key_error_def lk_default_key)

lemma required_keys_pass_dict:
  "distinct (map fst items) \<Longrightarrow>
   required_keys_pass p (PDict d) items =
     (case find (\<lambda>item. \<not> key_ok d item) items of
        Some item \<Rightarrow> Inl (key_error p d item)
      | None \<Rightarrow> Inr (PDict (fold default_key items d)))"
proof (induction items arbitrary: d)
  case Nil
  then show ?case by simp
next
  case (Cons item items)
  have ni: "fst item \<notin> set (map fst items)"
    using Cons.prems by simp
  have rest: "\<forall>item' \<in> set items. fst item' \<noteq> fst item"
  proof
    fix item' assume "item' \<in> set items"
    then have "fst item' \<in> set (map fst items)" by simp
    with ni show "fst item' \<noteq> fst item" by metis
  qed
  have f: "find (\<lambda>i. \<not> key_ok (default_key item d) i) items = find (\<lambda>i. \<not> key_ok d i) items"
    using rest by (intro find_cong) (auto simp: key_ok_default_key)
  have e: "\<And>i. find (\<lambda>i. \<not> key_ok d i) items = Some i \<Longrightarrow>
             key_error p (default_key item d) i = key_error p d i"
    using rest by (auto simp: find_Some_iff key_error_default_key)
  show ?case
    using Cons.prems Cons.IH[of "default_key item d"] f e
    by (auto simp: check_required_key_dict split: option.splits)
qed

lemma lk_fold_default_key:
  "distinct (map fst items) \<Longrightarrow>
   map_of (fold default_key items d) x =
     (if \<exists>item \<in> set items. x = PStr (fst item) \<and>
           (case map_of d x of None \<Rightarrow> True | Some v \<Rightarrow> \<not> isinstance v (snd item))
      then Some (PList []) else map_of d x)"
proof (induction items arbitrary: d)
  case Nil
  then show ?case by simp
next
  case (Cons item items)
  have ni: "fst item \<notin> set (map fst items)"
    using Cons.prems by simp
  have rest: "\<forall>item' \<in> set items. fst item' \<noteq> fst item"
  proof
    fix item' assume "item' \<in> set items"
    then have "fst item' \<in> set (map fst items)" by simp
    with ni show "fst item' \<noteq> fst item" by metis
  qed
  have d: "distinct (map fst items)" using Cons.prems by simp
  show ?case
    using rest by (auto simp: Cons.IH[OF d] lk_default_key split: option.splits)
qed

lemma validate_list_of_strings_cong:
  "\<forall>k \<in> set keys. map_of d' (PStr k) = map_of d (PStr k) \<Longrightarrow>
   validate_list_of_strings (PDict d') keys p = validate_list_of_strings (PDict d) keys p"
proof (induction keys)
  case Nil
  show ?case by simp
next
  case (Cons k keys)
  then have 1: "map_of d' (PStr k) = map_of d (PStr k)"
    and 2: "validate_list_of_strings (PDict d') keys p = validate_list_of_strings (PDict d) keys p"
    by simp_all
  show ?case by (simp add: 1 2 cong: if_cong)
qed

lemma later_stages_cong:
  assumes "\<forall>k \<in> set checked_keys. map_of d' (PStr k) = map_of d (PStr k)"
  shows "later_stages p (PDict d') = later_stages p (PDict d)"
proof -
  have "string_lists_stage p (PDict d') = string_lists_stage p (PDict d)"
    unfolding string_lists_stage_def
    using assms by (intro validate_list_of_strings_cong) (simp add: checked_keys_def)
  moreover have "experience_levels_stage p (PDict d') = experience_levels_stage p (PDict d)"
    "job_types_stage p (PDict d') = job_types_stage p (PDict d)"
    "date_filters_stage p (PDict d') = date_filters_stage p (PDict d)"
    "distance_stage p (PDict d') = distance_stage p (PDict d)"
    using assms
    by (simp_all add: experience_levels_stage_def job_types_stage_def
          date_filters_stage_def distance_stage_def checked_keys_def)
  ultimately show ?thesis by (simp add: later_stages_def)
qed

lemma distinct_REQUIRED: "distinct (map fst REQUIRED_CONFIG_KEYS)"
  by (simp add: REQUIRED_CONFIG_KEYS_def)

lemma isinstance_list: "isinstance v list_t \<longleftrightarrow> (\<exists>xs. v = PList xs)"
  by (cases v) simp_all

lemma validate_blacklists_loop_lists:
  "\<forall>k \<in> set ks. \<exists>xs. map_of d (PStr k) = Some (PList xs) \<Longrightarrow>
   validate_blacklists_loop (PDict d) p ks = Inr (PDict d)"
  by (induction ks) auto

lemma passed_unchanged:
  assumes ok: "\<forall>item \<in> set REQUIRED_CONFIG_KEYS. key_ok d item"
    and k: "k \<in> set checked_keys"
  shows "map_of (fold default_key REQUIRED_CONFIG_KEYS d) (PStr k) = map_of d (PStr k)"
proof -
  have nb: "\<not> k \<in> set BLACKLIST_KEYS"
    using k by (auto simp: checked_keys_def BLACKLIST_KEYS_def)
  have "\<not> (case map_of d (PStr k) of None \<Rightarrow> True | Some v \<Rightarrow> \<not> isinstance v (snd item))"
    if "item \<in> set REQUIRED_CONFIG_KEYS" and "PStr k = PStr (fst item)" for item
  proof -
    have "key_ok d item" using ok that(1) by blast
    then show ?thesis
      using nb that(2) by (cases item) (auto simp: key_ok_def split: option.splits)
  qed
  then show ?thesis
    by (auto simp: lk_fold_default_key[OF distinct_REQUIRED])
qed

lemma passed_blacklists:
  assumes ok: "\<forall>item \<in> set REQUIRED_CONFIG_KEYS. key_ok d item"
    and k: "k \<in> set BLACKLIST_KEYS"
  shows "\<exists>xs. map_of (fold default_key REQUIRED_CONFIG_KEYS d) (PStr k) = Some (PList xs)"
proof -
  let ?needs = "\<lambda>item. PStr k = PStr (fst item) \<and>
      (case map_of d (PStr k) of None \<Rightarrow> True | Some v \<Rightarrow> \<not> isinstance v (snd item))"
  have mem: "(k, list_t) \<in> set REQUIRED_CONFIG_KEYS"
    using k by (auto simp: BLACKLIST_KEYS_def REQUIRED_CONFIG_KEYS_def)
  show ?thesis
  proof (cases "\<exists>item \<in> set REQUIRED_CONFIG_KEYS. ?needs item")
    case True
    then show ?thesis by (simp add: lk_fold_default_key[OF distinct_REQUIRED])
  next
    case False
    then have "\<not> ?needs (k, list_t)" using mem by blast
    then obtain xs where "map_of d (PStr k) = Some (PList xs)"
      by (auto simp: isinstance_list split: option.splits)
    with False show ?thesis by (simp add: lk_fold_default_key[OF distinct_REQUIRED])
  qed
qed

lemma stages_chain:
  "and_then (py_getitem ps ''experience_level'') (\<lambda>experience_level.
   and_then (validate_experience_levels experience_level p) (\<lambda>_.
   and_then (py_getitem ps ''job_types'') (\<lambda>job_types.
   and_then (validate_job_types job_types p) (\<lambda>_.
   and_then (py_getitem ps ''date'') (\<lambda>date.
   and_then (validate_date_filters date p) (\<lambda>_.
   and_then (validate_list_of_strings ps [''positions'', ''locations''] p) (\<lambda>_.
   and_then (py_getitem ps ''distance'') (\<lambda>distance.
   and_then (validate_distance distance p) (\<lambda>_.
   validate_blacklists ps p)))))))))
   = (case first_failure (later_stages p ps) of
        Some e \<Rightarrow> Inl e | None \<Rightarrow> validate_blacklists ps p)"
  unfolding later_stages_def experience_levels_stage_def job_types_stage_def
    date_filters_stage_def string_lists_stage_def distance_stage_def and_then_def
  by (simp split: sum.splits)

lemma check_parameters_stages:
  "check_parameters p ps =
     and_then (required_keys_pass p ps REQUIRED_CONFIG_KEYS) (\<lambda>ps'.
       case first_failure (later_stages p ps') of
         Some e \<Rightarrow> Inl e | None \<Rightarrow> validate_blacklists ps' p)"
  unfolding check_parameters_def stages_chain ..

lemma check_parameters_dict:
  "check_parameters p (PDict d) =
     (case find (\<lambda>item. \<not> key_ok d item) REQUIRED_CONFIG_KEYS of
        Some item \<Rightarrow> Inl (key_error p d item)
      | None \<Rightarrow>
          (case first_failure (later_stages p (PDict d)) of
             Some e \<Rightarrow> Inl e
           | None \<Rightarrow> Inr (PDict (fold default_key REQUIRED_CONFIG_KEYS d))))"
proof (cases "find (\<lambda>item. \<not> key_ok d item) REQUIRED_CONFIG_KEYS")
  case (Some item)
  then show ?thesis
    by (simp add: check_parameters_stages required_keys_pass_dict[OF distinct_REQUIRED])
next
  case None
  then have ok: "\<forall>item \<in> set REQUIRED_CONFIG_KEYS. key_ok d item"
    by (auto simp: find_None_iff)
  let ?d' = "fold default_key REQUIRED_CONFIG_KEYS d"
  have st: "later_stages p (PDict ?d') = later_stages p (PDict d)"
    using passed_unchanged[OF ok] by (intro later_stages_cong) blast
  have bl: "validate_blacklists (PDict ?d') p = Inr (PDict ?d')"
    unfolding validate_blacklists_def
    using passed_blacklists[OF ok] by (intro validate_blacklists_loop_lists) blast
  show ?thesis
    using None
    by (simp add: check_parameters_stages required_keys_pass_dict[OF distinct_REQUIRED] st bl
          split: option.splits)
qed

lemma required_keys_pass_not_dict:
  assumes "\<And>d. ps \<noteq> PDict d"
  shows "required_keys_pass p ps REQUIRED_CONFIG_KEYS = Inl (TypeError (type_name ps)) \<or>
         required_keys_pass p ps REQUIRED_CONFIG_KEYS
           = Inl (ConfigError (MissingRequiredKey ''remote'' p))"
proof (cases ps)
  case (PDict d)
  with assms show ?thesis by blast
qed (simp_all add: REQUIRED_CONFIG_KEYS_def check_required_key_def BLACKLIST_KEYS_def)

lemma required_keys_pass_result:
  "required_keys_pass p ps REQUIRED_CONFIG_KEYS = Inr ps' \<Longrightarrow>
   later_stages p ps' = later_stages p ps \<and> validate_blacklists ps' p = Inr ps'"
proof (cases ps)
  case (PDict d)
  assume r: "required_keys_pass p ps REQUIRED_CONFIG_KEYS = Inr ps'"
  then have ok: "\<forall>item \<in> set REQUIRED_CONFIG_KEYS. key_ok d item"
    and ps': "ps' = PDict (fold default_key REQUIRED_CONFIG_KEYS d)"
    using PDict
    by (auto simp: required_keys_pass_dict[OF distinct_REQUIRED] find_None_iff
          split: option.splits)
  have st: "later_stages p ps' = later_stages p (PDict d)"
    unfolding ps' using passed_unchanged[OF ok] by (intro later_stages_cong) blast
  have bl: "validate_blacklists ps' p = Inr ps'"
    unfolding validate_blacklists_def ps'
    using passed_blacklists[OF ok] by (intro validate_blacklists_loop_lists) blast
  show ?thesis using st bl PDict by simp
qed (use required_keys_pass_not_dict[of ps p] in auto)

lemma check_parameters_order:
  "check_parameters p ps =
     (case required_keys_pass p ps REQUIRED_CONFIG_KEYS of
        Inl e \<Rightarrow> Inl e
      | Inr ps' \<Rightarrow>
          (case first_failure (later_stages p ps) of
             Some e \<Rightarrow> Inl e
           | None \<Rightarrow> Inr ps'))"
  using required_keys_pass_result[of p ps]
  by (auto simp: check_parameters_stages split: sum.splits option.splits)

section \<open>Valid documents and the errors of the later stages\<close>

lemma check_parameters_valid_iff:
  "check_parameters p (PDict d) = Inr r \<longleftrightarrow>
     (\<forall>item \<in> set REQUIRED_CONFIG_KEYS. key_ok d item) \<and>
     first_failure (later_stages p (PDict d)) = None \<and>
     r = PDict (fold default_key REQUIRED_CONFIG_KEYS d)"
  by (auto simp: check_parameters_dict find_None_iff find_Some_iff split: option.splits)

lemma first_failure_Cons:
  "first_failure (x # xs) = (case x of Inl e \<Rightarrow> Some e | Inr u \<Rightarrow> first_failure xs)"
  by (cases x) simp_all

lemma key_ok_update:
  "key_ok (AList.update (PStr k) v d) item =
     (if fst item = k then isinstance v (snd item) \<or> (k \<in> set BLACKLIST_KEYS \<and> v = PNone)
      else key_ok d item)"
  by (cases item) (simp add: key_ok_def update_conv')

lemma later_stages_update_distance:
  "later_stages p (PDict (AList.update (PStr ''distance'') v d)) =
     [experience_levels_stage p (PDict d), job_types_stage p (PDict d),
      date_filters_stage p (PDict d), string_lists_stage p (PDict d), validate_distance v p]"
proof -
  have "string_lists_stage p (PDict (AList.update (PStr ''distance'') v d))
          = string_lists_stage p (PDict d)"
    unfolding string_lists_stage_def
    by (intro validate_list_of_strings_cong) (simp add: update_conv')
  then show ?thesis
    by (simp add: later_stages_def experience_levels_stage_def job_types_stage_def
          date_filters_stage_def distance_stage_def update_conv')
qed

lemma keys_ok_update_distance:
  assumes "\<forall>item \<in> set REQUIRED_CONFIG_KEYS. key_ok (AList.update (PStr ''distance'') v d) item"
    and "isinstance w int_t"
  shows "\<forall>item \<in> set REQUIRED_CONFIG_KEYS. key_ok (AList.update (PStr ''distance'') w d) item"
  using assms by (simp add: REQUIRED_CONFIG_KEYS_def key_ok_update)

lemma validate_distance_Inr [simp]: "validate_distance (PInt 0) p = Inr ()"
  by (simp add: validate_distance_def APPROVED_DISTANCES_def)

lemma distance_outcome:
  assumes valid: "check_parameters p (PDict (AList.update (PStr ''distance'') (PInt 0) d)) = Inr r"
    and int: "isinstance v int_t"
  shows "check_parameters p (PDict (AList.update (PStr ''distance'') v d)) =
           (case validate_distance v p of
              Inl e \<Rightarrow> Inl e
            | Inr u \<Rightarrow> Inr (PDict (fold default_key REQUIRED_CONFIG_KEYS
                                    (AList.update (PStr ''distance'') v d))))"
proof -
  let ?d0 = "AList.update (PStr ''distance'') (PInt 0) d"
  let ?dv = "AList.update (PStr ''distance'') v d"
  from valid have ok0: "\<forall>item \<in> set REQUIRED_CONFIG_KEYS. key_ok ?d0 item"
    and st0: "first_failure (later_stages p (PDict ?d0)) = None"
    by (simp_all add: check_parameters_valid_iff)
  have okv: "\<forall>item \<in> set REQUIRED_CONFIG_KEYS. key_ok ?dv item"
    using keys_ok_update_distance[OF ok0 int] .
  then have f: "find (\<lambda>item. \<not> key_ok ?dv item) REQUIRED_CONFIG_KEYS = None"
    by (simp add: find_None_iff)
  have stv: "first_failure (later_stages p (PDict ?dv)) =
               (case validate_distance v p of Inl e \<Rightarrow> Some e | Inr u \<Rightarrow> None)"
    using st0
    by (simp add: later_stages_update_distance first_failure_Cons split: sum.splits)
  show ?thesis
    by (simp add: check_parameters_dict f stv split: sum.splits)
qed

lemma find_SomeD: "find P xs = Some x \<Longrightarrow> x \<in> set xs \<and> P x"
  by (induction xs) (auto split: if_splits)

lemma key_ok_nonblacklist:
  "key_ok d (k, t) \<Longrightarrow> k \<notin> set BLACKLIST_KEYS \<Longrightarrow>
   \<exists>v. map_of d (PStr k) = Some v \<and> isinstance v t"
  by (auto simp: key_ok_def split: option.splits)

lemma isinstance_dict: "isinstance v dict_t \<longleftrightarrow> (\<exists>el. v = PDict el)"
  by (cases v) simp_all

lemma isinstance_int: "isinstance v int_t \<longleftrightarrow> (\<exists>n. v = PInt n) \<or> (\<exists>b. v = PBool b)"
  by (cases v) simp_all

lemma validate_experience_levels_loop_error:
  "validate_experience_levels_loop (PDict el) p ls = Inl e \<Longrightarrow>
   \<exists>l. e = ConfigError (ExperienceLevelNotBool l p)"
  by (induction ls) (auto split: if_splits)

lemma validate_job_types_loop_error:
  "validate_job_types_loop (PDict jt) p ls = Inl e \<Longrightarrow>
   \<exists>l. e = ConfigError (JobTypeNotBool l p)"
  by (induction ls) (auto split: if_splits)

lemma validate_date_filters_loop_error:
  "validate_date_filters_loop (PDict dt) p ls = Inl e \<Longrightarrow>
   \<exists>l. e = ConfigError (DateFilterNotBool l p)"
  by (induction ls) (auto split: if_splits)

lemma validate_list_of_strings_error:
  "validate_list_of_strings (PDict d) keys p = Inl e \<Longrightarrow>
   \<forall>k \<in> set keys. \<exists>xs. map_of d (PStr k) = Some (PList xs) \<Longrightarrow>
   \<exists>k. e = ConfigError (NotListOfStrings k p)"
  by (induction keys) (auto split: if_splits)

lemma validate_distance_error:
  "validate_distance v p = Inl e \<Longrightarrow> isinstance v int_t \<Longrightarrow>
   e = ConfigError (InvalidDistance v p)"
  by (auto simp: validate_distance_def isinstance_int split: if_splits)

lemma later_stage_errors:
  assumes ok: "\<forall>item \<in> set REQUIRED_CONFIG_KEYS. key_ok d item"
    and ff: "first_failure (later_stages p (PDict d)) = Some e"
  shows "\<exists>m. e = ConfigError m \<and> later_stage_msg m"
proof -
  have nb: "''experience_level'' \<notin> set BLACKLIST_KEYS" "''job_types'' \<notin> set BLACKLIST_KEYS"
    "''date'' \<notin> set BLACKLIST_KEYS" "''positions'' \<notin> set BLACKLIST_KEYS"
    "''locations'' \<notin> set BLACKLIST_KEYS" "''distance'' \<notin> set BLACKLIST_KEYS"
    by (simp_all add: BLACKLIST_KEYS_def)
  have k: "key_ok d (''experience_level'', dict_t)" "key_ok d (''job_types'', dict_t)"
    "key_ok d (''date'', dict_t)" "key_ok d (''positions'', list_t)"
    "key_ok d (''locations'', list_t)" "key_ok d (''distance'', int_t)"
    using ok by (simp_all add: REQUIRED_CONFIG_KEYS_def)
  obtain el where el: "map_of d (PStr ''experience_level'') = Some (PDict el)"
    using key_ok_nonblacklist[OF k(1) nb(1)] by (auto simp: isinstance_dict)
  obtain jt where jt: "map_of d (PStr ''job_types'') = Some (PDict jt)"
    using key_ok_nonblacklist[OF k(2) nb(2)] by (auto simp: isinstance_dict)
  obtain dt where dt: "map_of d (PStr ''date'') = Some (PDict dt)"
    using key_ok_nonblacklist[OF k(3) nb(3)] by (auto simp: isinstance_dict)
  obtain ps where ps: "map_of d (PStr ''positions'') = Some (PList ps)"
    using key_ok_nonblacklist[OF k(4) nb(4)] by (auto simp: isinstance_list)
  obtain ls where ls: "map_of d (PStr ''locations'') = Some (PList ls)"
    using key_ok_nonblacklist[OF k(5) nb(5)] by (auto simp: isinstance_list)
  obtain dist where dist: "map_of d (PStr ''distance'') = Some dist" "isinstance dist int_t"
    using key_ok_nonblacklist[OF k(6) nb(6)] by auto
  have s1: "experience_levels_stage p (PDict d) = Inl x \<Longrightarrow> \<exists>m. x = ConfigError m \<and> later_stage_msg m" for x
    using validate_experience_levels_loop_error[of el p EXPERIENCE_LEVELS x]
    by (auto simp: experience_levels_stage_def el validate_experience_levels_def
          later_stage_msg_def)
  have s2: "job_types_stage p (PDict d) = Inl x \<Longrightarrow> \<exists>m. x = ConfigError m \<and> later_stage_msg m" for x
    using validate_job_types_loop_error[of jt p JOB_TYPES x]
    by (auto simp: job_types_stage_def jt validate_job_types_def later_stage_msg_def)
  have s3: "date_filters_stage p (PDict d) = Inl x \<Longrightarrow> \<exists>m. x = ConfigError m \<and> later_stage_msg m" for x
    using validate_date_filters_loop_error[of dt p DATE_FILTERS x]
    by (auto simp: date_filters_stage_def dt validate_date_filters_def later_stage_msg_def)
  have s4: "string_lists_stage p (PDict d) = Inl x \<Longrightarrow> \<exists>m. x = ConfigError m \<and> later_stage_msg m" for x
    using validate_list_of_strings_error[of d "[''positions'', ''locations'']" p x] ps ls
    by (auto simp: string_lists_stage_def later_stage_msg_def)
  have s5: "distance_stage p (PDict d) = Inl x \<Longrightarrow> \<exists>m. x = ConfigError m \<and> later_stage_msg m" for x
    using validate_distance_error[of dist p x] dist
    by (auto simp: distance_stage_def later_stage_msg_def)
  show ?thesis
    using ff s1 s2 s3 s4 s5
    by (auto simp: later_stages_def first_failure_Cons split: sum.splits)
qed





lemma find_append_first:
  "P x \<Longrightarrow> find P (xs @ x # ys) = (case find P xs of Some y \<Rightarrow> Some y | None \<Rightarrow> Some x)"
  by (induction xs) auto

lemma distance_wrong_type:
  assumes valid: "check_parameters p (PDict (AList.update (PStr ''distance'') (PInt 0) d)) = Inr r"
    and v: "\<not> isinstance v int_t"
  shows "check_parameters p (PDict (AList.update (PStr ''distance'') v d))
           = Inl (ConfigError (InvalidType ''distance'' p ''int''))"
proof -
  let ?d0 = "AList.update (PStr ''distance'') (PInt 0) d"
  let ?dv = "AList.update (PStr ''distance'') v d"
  let ?before = "[(''remote'', bool_t), (''experience_level'', dict_t), (''job_types'', dict_t),
                  (''date'', dict_t), (''positions'', list_t), (''locations'', list_t),
                  (''location_blacklist'', list_t)]"
  let ?after = "[(''company_blacklist'', list_t), (''title_blacklist'', list_t)]"
  from valid have ok0: "\<forall>item \<in> set REQUIRED_CONFIG_KEYS. key_ok ?d0 item"
    by (simp add: check_parameters_valid_iff)
  have r: "REQUIRED_CONFIG_KEYS = ?before @ (''distance'', int_t) # ?after"
    by (simp add: REQUIRED_CONFIG_KEYS_def)
  have b: "\<forall>item \<in> set ?before. key_ok ?dv item"
    using ok0 by (simp add: REQUIRED_CONFIG_KEYS_def key_ok_update)
  then have n: "find (\<lambda>item. \<not> key_ok ?dv item) ?before = None"
    unfolding find_None_iff by blast
  have bad: "\<not> key_ok ?dv (''distance'', int_t)"
    using v by (simp add: key_ok_update BLACKLIST_KEYS_def)
  have f: "find (\<lambda>item. \<not> key_ok ?dv item) REQUIRED_CONFIG_KEYS = Some (''distance'', int_t)"
    unfolding r find_append_first[of "\<lambda>item. \<not> key_ok ?dv item", OF bad] n by simp
  show ?thesis
    by (simp add: check_parameters_dict f key_error_def update_conv')
qed

section \<open>Evaluating the concrete inputs\<close>

lemma load_answering [simp]: "load_yaml (answering v) every_path_a_file p = Inr v"
  by (simp add: load_yaml_def answering_def every_path_a_file_def)

lemma check_parameters_minimal:
  "check_parameters p (PDict (minimal_config remote levels types dates))
     = Inr (PDict (minimal_config remote levels types dates))"
proof -
  let ?d = "minimal_config remote levels types dates"
  have f: "find (\<lambda>item. \<not> key_ok ?d item) REQUIRED_CONFIG_KEYS = None"
    by (simp add: minimal_config_def flags_def REQUIRED_CONFIG_KEYS_def key_ok_def)
  have s: "first_failure (later_stages p (PDict ?d)) = None"
    by (simp add: minimal_config_def flags_def later_stages_def
          experience_levels_stage_def job_types_stage_def date_filters_stage_def
          string_lists_stage_def distance_stage_def validate_experience_levels_def
          validate_job_types_def validate_date_filters_def
          EXPERIENCE_LEVELS_def JOB_TYPES_def DATE_FILTERS_def)
  have n: "fold default_key REQUIRED_CONFIG_KEYS ?d = ?d"
    by (simp add: minimal_config_def flags_def REQUIRED_CONFIG_KEYS_def default_key_def)
  show ?thesis
    by (simp add: check_parameters_dict f s n)
qed

lemma plain_config_distance_0:
  "AList.update (PStr ''distance'') (PInt 0) plain_config = plain_config"
  by (simp add: plain_config_def minimal_config_def)

section \<open>The plain-resume flow\<close>

lemma files_emit [simp]: "files (emit ev w) = files w"
  by (simp add: emit_def)

lemma logged_emit [simp]: "logged (emit ev w) = logged w @ [ev]"
  by (simp add: emit_def)

lemma files_prompt_style_selection [simp]:
  "files (snd (prompt_style_selection env w)) = files w"
  by (simp add: prompt_style_selection_def Let_def split: option.splits)

lemma files_select_style [simp]: "files (snd (select_style env style_name w)) = files w"
proof -
  obtain r w' where p: "prompt_style_selection env w = (r, w')"
    by (cases "prompt_style_selection env w")
  have "files w' = files w"
    using files_prompt_style_selection[of env w] p by simp
  then show ?thesis
    using p by (auto simp: select_style_def split: option.splits if_splits)
qed

lemma b64decode_abc: "b64decode ''abc'' = Inl (BinasciiError ''Incorrect padding'')"
  by (simp add: b64decode_def b64_index_def)

lemma b64decode_at: "b64decode ''@@@@'' = Inr []"
  by (simp add: b64decode_def b64_index_def)

lemma not_valid_at: "\<not> valid_base64 ''@@@@''"
  by (simp add: valid_base64_def b64_index_def)

section \<open>The claims\<close>

text \<open>
  C1. \<^verbatim>\<open>validate_config\<close> checks the loaded document in a fixed order and raises on the
  first failure. The whole required-key pass comes first: if it raises, that error is the
  result. Otherwise the result is the error of the first failing stage among experience
  levels, job types, date filters, string lists and distance, each judged on the document
  as loaded, whatever the later stages would say; when none fails, the normalised
  document of the pass is returned, and the final blacklist check on it cannot fail.
\<close>

theorem validate_config_order:
  assumes "load_yaml safe_load fs p = Inr ps"
  shows "validate_config safe_load fs p =
           (case required_keys_pass p ps REQUIRED_CONFIG_KEYS of
              Inl e \<Rightarrow> Inl e
            | Inr ps' \<Rightarrow>
                (case first_failure (later_stages p ps) of
                   Some e \<Rightarrow> Inl e
                 | None \<Rightarrow> Inr ps'))
         \<and> (\<forall>ps'. required_keys_pass p ps REQUIRED_CONFIG_KEYS = Inr ps' \<longrightarrow>
                validate_blacklists ps' p = Inr ps')"
  using assms required_keys_pass_result[of p ps]
  by (simp add: validate_config_def check_parameters_order)

theorem validate_config_order_witness:
  "validate_config (answering (PDict two_violations)) every_path_a_file config_path
     = Inl (ConfigError (JobTypeNotBool ''full_time'' config_path))"
proof -
  have l: "load_yaml (answering (PDict two_violations)) every_path_a_file config_path
             = Inr (PDict two_violations)"
    by simp
  have r: "\<exists>ps'. required_keys_pass config_path (PDict two_violations)
                   REQUIRED_CONFIG_KEYS = Inr ps'"
    by (simp add: two_violations_def plain_config_def minimal_config_def flags_def
          REQUIRED_CONFIG_KEYS_def check_required_key_def EXPERIENCE_LEVELS_def
          JOB_TYPES_def DATE_FILTERS_def BLACKLIST_KEYS_def)
  have s: "first_failure (later_stages config_path (PDict two_violations))
             = Some (ConfigError (JobTypeNotBool ''full_time'' config_path))"
    by (simp add: two_violations_def plain_config_def minimal_config_def flags_def
          later_stages_def experience_levels_stage_def job_types_stage_def
          validate_experience_levels_def validate_job_types_def EXPERIENCE_LEVELS_def
          JOB_TYPES_def DATE_FILTERS_def)
  show ?thesis
    using validate_config_order[OF l] r s by auto
qed




text \<open>
  C3. Let a mapping be valid once one of the three blacklist keys is bound to a list, and
  let that key be absent from it or bound to null. Then \<^verbatim>\<open>validate_config\<close> succeeds, and
  the returned mapping binds the key to the empty list.
\<close>

theorem blacklist_defaulted:
  assumes "load_yaml safe_load fs p = Inr (PDict d)"
    and "key \<in> set BLACKLIST_KEYS"
    and "map_of d (PStr key) = None \<or> map_of d (PStr key) = Some PNone"
    and "check_parameters p (PDict (AList.update (PStr key) (PList xs) d)) = Inr r"
  shows "\<exists>d'. validate_config safe_load fs p = Inr (PDict d') \<and>
              map_of d' (PStr key) = Some (PList [])"
proof -
  let ?dx = "AList.update (PStr key) (PList xs) d"
  let ?d' = "fold default_key REQUIRED_CONFIG_KEYS d"
  from assms(4) have okx: "\<forall>item \<in> set REQUIRED_CONFIG_KEYS. key_ok ?dx item"
    and stx: "first_failure (later_stages p (PDict ?dx)) = None"
    by (simp_all add: check_parameters_valid_iff)
  have ok: "\<forall>item \<in> set REQUIRED_CONFIG_KEYS. key_ok d item"
  proof
    fix item assume i: "item \<in> set REQUIRED_CONFIG_KEYS"
    show "key_ok d item"
    proof (cases "fst item = key")
      case True
      then show ?thesis
        using assms(2,3) by (cases item) (auto simp: key_ok_def)
    next
      case False
      then show ?thesis
        using okx i by (simp add: key_ok_update)
    qed
  qed
  have "\<forall>k \<in> set checked_keys. map_of ?dx (PStr k) = map_of d (PStr k)"
    using assms(2) by (auto simp: checked_keys_def BLACKLIST_KEYS_def update_conv')
  then have "later_stages p (PDict ?dx) = later_stages p (PDict d)"
    by (rule later_stages_cong)
  with stx have st: "first_failure (later_stages p (PDict d)) = None"
    by simp
  have v: "validate_config safe_load fs p = Inr (PDict ?d')"
    using assms(1) ok st by (simp add: validate_config_def check_parameters_valid_iff)
  have mem: "(key, list_t) \<in> set REQUIRED_CONFIG_KEYS"
    using assms(2) by (auto simp: BLACKLIST_KEYS_def REQUIRED_CONFIG_KEYS_def)
  have "\<exists>item \<in> set REQUIRED_CONFIG_KEYS. PStr key = PStr (fst item) \<and>
          (case map_of d (PStr key) of None \<Rightarrow> True | Some v \<Rightarrow> \<not> isinstance v (snd item))"
    using assms(3) by (intro bexI[OF _ mem]) auto
  then have "map_of ?d' (PStr key) = Some (PList [])"
    by (simp add: lk_fold_default_key[OF distinct_REQUIRED])
  with v show ?thesis by blast
qed

theorem blacklist_defaulted_witness:
  "(\<exists>d'. validate_config (answering (PDict company_blacklist_null)) every_path_a_file
            config_path = Inr (PDict d') \<and>
          map_of d' (PStr ''company_blacklist'') = Some (PList [])) \<and>
   (\<exists>d'. validate_config (answering (PDict title_blacklist_absent)) every_path_a_file
            config_path = Inr (PDict d') \<and>
          map_of d' (PStr ''title_blacklist'') = Some (PList []))"
proof -
  have c: "''company_blacklist'' \<in> set BLACKLIST_KEYS"
    and t: "''title_blacklist'' \<in> set BLACKLIST_KEYS"
    by (simp_all add: BLACKLIST_KEYS_def)
  have cn: "map_of company_blacklist_null (PStr ''company_blacklist'') = None \<or>
            map_of company_blacklist_null (PStr ''company_blacklist'') = Some PNone"
    by (simp add: company_blacklist_null_def plain_config_def minimal_config_def)
  have ta: "map_of title_blacklist_absent (PStr ''title_blacklist'') = None \<or>
            map_of title_blacklist_absent (PStr ''title_blacklist'') = Some PNone"
    by (simp add: title_blacklist_absent_def plain_config_def minimal_config_def)
  have "AList.update (PStr ''company_blacklist'') (PList []) company_blacklist_null
          = plain_config"
    by (simp add: company_blacklist_null_def plain_config_def minimal_config_def)
  then have cv: "check_parameters config_path
                   (PDict (AList.update (PStr ''company_blacklist'') (PList [])
                             company_blacklist_null)) = Inr (PDict plain_config)"
    by (simp add: plain_config_def check_parameters_minimal)
  have "AList.update (PStr ''title_blacklist'') (PList []) title_blacklist_absent
          = plain_config"
    by (simp add: title_blacklist_absent_def plain_config_def minimal_config_def)
  then have tv: "check_parameters config_path
                   (PDict (AList.update (PStr ''title_blacklist'') (PList [])
                             title_blacklist_absent)) = Inr (PDict plain_config)"
    by (simp add: plain_config_def check_parameters_minimal)
  show ?thesis
    using blacklist_defaulted[OF load_answering c cn cv]
      blacklist_defaulted[OF load_answering t ta tv]
    by blast
qed

text \<open>
  C4. Let all other fields be valid, that is, let the mapping be valid with \<^verbatim>\<open>distance\<close>
  bound to 0. With \<^verbatim>\<open>distance\<close> bound to an integer of the approved set
  \<open>{0, 5, 10, 25, 50, 100}\<close> \<^verbatim>\<open>validate_config\<close> succeeds, with any other integer it fails
  with the invalid-distance error, and with a value that is not an integer at all (a float,
  a string, null) it fails with the invalid-type error.
\<close>

theorem distance_approved:
  assumes "load_yaml safe_load fs p = Inr (PDict (AList.update (PStr ''distance'') v d))"
    and "check_parameters p (PDict (AList.update (PStr ''distance'') (PInt 0) d)) = Inr r"
  shows "(\<forall>n. v = PInt n \<and> n \<in> APPROVED_DISTANCES \<longrightarrow>
            (\<exists>r'. validate_config safe_load fs p = Inr r')) \<and>
         (\<forall>n. v = PInt n \<and> n \<notin> APPROVED_DISTANCES \<longrightarrow>
            validate_config safe_load fs p = Inl (ConfigError (InvalidDistance v p))) \<and>
         (\<not> isinstance v int_t \<longrightarrow>
            validate_config safe_load fs p
              = Inl (ConfigError (InvalidType ''distance'' p ''int'')))"
proof (intro conjI allI impI)
  fix n assume "v = PInt n \<and> n \<in> APPROVED_DISTANCES"
  then show "\<exists>r'. validate_config safe_load fs p = Inr r'"
    using assms(1) distance_outcome[OF assms(2), of "PInt n"]
    by (simp add: validate_config_def validate_distance_def)
next
  fix n assume "v = PInt n \<and> n \<notin> APPROVED_DISTANCES"
  then show "validate_config safe_load fs p = Inl (ConfigError (InvalidDistance v p))"
    using assms(1) distance_outcome[OF assms(2), of "PInt n"]
    by (simp add: validate_config_def validate_distance_def)
next
  assume "\<not> isinstance v int_t"
  from distance_wrong_type[OF assms(2) this] assms(1)
  show "validate_config safe_load fs p = Inl (ConfigError (InvalidType ''distance'' p ''int''))"
    by (simp add: validate_config_def)
qed

theorem distance_approved_witness:
  "(\<exists>r'. validate_config
            (answering (PDict (AList.update (PStr ''distance'') (PInt 25) plain_config)))
            every_path_a_file config_path = Inr r') \<and>
   validate_config (answering (PDict (AList.update (PStr ''distance'') (PInt 7) plain_config)))
     every_path_a_file config_path
     = Inl (ConfigError (InvalidDistance (PInt 7) config_path)) \<and>
   validate_config
     (answering (PDict (AList.update (PStr ''distance'') (PFloat 5) plain_config)))
     every_path_a_file config_path
     = Inl (ConfigError (InvalidType ''distance'' config_path ''int''))"
proof -
  have v: "check_parameters config_path
             (PDict (AList.update (PStr ''distance'') (PInt 0) plain_config))
             = Inr (PDict plain_config)"
    by (simp add: plain_config_distance_0) (simp add: plain_config_def check_parameters_minimal)
  have a: "(25::int) \<in> APPROVED_DISTANCES" and b: "(7::int) \<notin> APPROVED_DISTANCES"
    by (simp_all add: APPROVED_DISTANCES_def)
  have c: "\<not> isinstance (PFloat 5) int_t"
    by simp
  show ?thesis
    using distance_approved[OF load_answering v, where v = "PInt 25"]
      distance_approved[OF load_answering v, where v = "PInt 7"]
      distance_approved[OF load_answering v, where v = "PFloat 5"]
      a b c
    by blast
qed

text \<open>
  C5. The minimal valid configuration (every required key, the nested maps fully populated
  with booleans, empty lists for positions, locations and the three blacklists, distance 0)
  validates, and the document returned is the document given.
\<close>

theorem minimal_config_round_trip:
  assumes "load_yaml safe_load fs p = Inr (PDict (minimal_config remote levels types dates))"
  shows "validate_config safe_load fs p = Inr (PDict (minimal_config remote levels types dates))"
  using assms by (simp add: validate_config_def check_parameters_minimal)

theorem minimal_config_round_trip_witness:
  "validate_config (answering (PDict plain_config)) every_path_a_file config_path
     = Inr (PDict plain_config)"
  unfolding plain_config_def
  by (rule minimal_config_round_trip) simp



text \<open>
  C7. For a data folder that is a directory and lacks at least one required file,
  \<^verbatim>\<open>validate_data_folder\<close> fails with the missing-files error, the file system untouched;
  the error lists exactly the required file names that are absent, and when only the
  plain-text resume is absent it lists exactly that name.
\<close>

theorem missing_files_listed:
  assumes "is_dir fs folder"
    and "\<exists>file \<in> set (REQUIRED_FILES c). \<not> exists fs (join folder file)"
  shows "\<exists>missing.
           validate_data_folder c fs folder
             = (Inl (FileNotFoundError (MissingFilesInDataFolder missing)), fs) \<and>
           set missing = {file \<in> set (REQUIRED_FILES c). \<not> exists fs (join folder file)} \<and>
           (exists fs (join folder (SECRETS_YAML c)) \<and>
            exists fs (join folder (WORK_PREFERENCES_YAML c)) \<and>
            \<not> exists fs (join folder (PLAIN_TEXT_RESUME_YAML c))
            \<longrightarrow> missing = [PLAIN_TEXT_RESUME_YAML c])"
proof -
  let ?missing = "filter (\<lambda>file. \<not> exists fs (join folder file)) (REQUIRED_FILES c)"
  have ne: "?missing \<noteq> []"
    using assms(2) by (simp add: filter_empty_conv)
  have "validate_data_folder c fs folder
          = (Inl (FileNotFoundError (MissingFilesInDataFolder ?missing)), fs)"
    using assms(1) ne by (simp add: validate_data_folder_def Let_def)
  moreover have "set ?missing = {file \<in> set (REQUIRED_FILES c). \<not> exists fs (join folder file)}"
    by simp
  moreover have "exists fs (join folder (SECRETS_YAML c)) \<and>
            exists fs (join folder (WORK_PREFERENCES_YAML c)) \<and>
            \<not> exists fs (join folder (PLAIN_TEXT_RESUME_YAML c))
            \<longrightarrow> ?missing = [PLAIN_TEXT_RESUME_YAML c]"
    by (simp add: REQUIRED_FILES_def)
  ultimately show ?thesis by blast
qed

theorem missing_files_listed_witness:
  "validate_data_folder example_constants resume_missing [''data_folder'']
     = (Inl (FileNotFoundError (MissingFilesInDataFolder [''plain_text_resume.yaml''])),
        resume_missing)"
proof -
  have d: "is_dir resume_missing [''data_folder'']"
    by (simp add: is_dir_def resume_missing_def)
  have m: "\<exists>file \<in> set (REQUIRED_FILES example_constants).
             \<not> exists resume_missing (join [''data_folder''] file)"
    by (simp add: REQUIRED_FILES_def example_constants_def exists_def resume_missing_def
          join_def)
  have e: "exists resume_missing (join [''data_folder''] (SECRETS_YAML example_constants)) \<and>
           exists resume_missing
             (join [''data_folder''] (WORK_PREFERENCES_YAML example_constants)) \<and>
           \<not> exists resume_missing
               (join [''data_folder''] (PLAIN_TEXT_RESUME_YAML example_constants))"
    by (simp add: example_constants_def exists_def resume_missing_def join_def)
  show ?thesis
    using missing_files_listed[OF d m] e by (auto simp: example_constants_def)
qed

text \<open>
  C8. As stated (every payload that is not valid base64 makes the flow fail before any
  write) the claim fails: the decoder is called in its lenient default mode, which discards
  the characters outside the alphabet, so the payload \<^verbatim>\<open>@@@@\<close>, which is not base64, decodes to
  no bytes and the output file is written.
\<close>

theorem lenient_decoding_counterexample:
  "\<not> valid_base64 ''@@@@'' \<and>
   create_resume_pdf b64decode (example_env ''@@@@'') example_parameters ''sk-example''
       (Some ''default'') (Some ''resume.pdf'') example_world
     = (Inr (),
        \<lparr>files = (files example_world)([''data_folder'', ''output'', ''resume.pdf''] \<mapsto> File []),
         logged = [GeneratingCV, UsingSelectedStyle ''default'',
                   ResumeSavedAt [''data_folder'', ''output'', ''resume.pdf'']]\<rparr>)"
proof -
  have r: "read_plain_text_resume example_parameters (files example_world) = Inr ''name: Ada''"
    by (simp add: read_plain_text_resume_def example_parameters_def example_world_def
          plain_config_def minimal_config_def)
  have s: "select_style (example_env ''@@@@'') (Some ''default'') (emit GeneratingCV example_world)
             = (''default'', emit (UsingSelectedStyle ''default'') (emit GeneratingCV example_world))"
    by (simp add: select_style_def STYLE_MAPPING_def)
  have o: "and_then (py_getitem example_parameters ''outputFileDirectory'') as_path
             = Inr [''data_folder'', ''output'']"
    by (simp add: example_parameters_def plain_config_def minimal_config_def)
  have w: "write_binary (files example_world) [''data_folder'', ''output'', ''resume.pdf''] []
             = Inr ((files example_world)([''data_folder'', ''output'', ''resume.pdf''] \<mapsto> File []))"
    by (simp add: write_binary_def is_dir_def example_world_def)
  have b: "build_result (example_env ''@@@@'') = Inr ''@@@@''"
    by (simp add: example_env_def)
  show ?thesis
    by (simp add: not_valid_at create_resume_pdf_def create_resume_pdf_try_def Let_def r s o
          b64decode_at b join_def w)
       (simp add: emit_def example_world_def)
qed

text \<open>
  C8, amended. For every payload of the build collaborator on which the decoder raises, the
  plain-resume flow fails and leaves the file system as it was; when the resume source
  could be read, the error raised is the decoder's error, it is logged last as the failure
  of the flow, and a \<^verbatim>\<open>binascii.Error\<close> is logged by the decoding step as well.
\<close>

theorem decode_failure_writes_nothing:
  assumes "build_result env = Inr payload"
    and "decode payload = Inl e"
  shows "files (snd (create_resume_pdf decode env parameters llm_api_key style_name
                       output_filename w)) = files w
       \<and> (\<exists>e'. fst (create_resume_pdf decode env parameters llm_api_key style_name
                       output_filename w) = Inl e')
       \<and> (\<forall>text. read_plain_text_resume parameters (files w) = Inr text \<longrightarrow>
            fst (create_resume_pdf decode env parameters llm_api_key style_name
                   output_filename w) = Inl e \<and>
            last (logged (snd (create_resume_pdf decode env parameters llm_api_key style_name
                                 output_filename w))) = ErrorCreatingCV e \<and>
            ((\<exists>m. e = BinasciiError m) \<longrightarrow>
               ErrorDecodingBase64 e \<in> set (logged (snd (create_resume_pdf decode env
                 parameters llm_api_key style_name output_filename w)))))"
proof -
  obtain style w2 where s: "select_style env style_name (emit GeneratingCV w) = (style, w2)"
    by (cases "select_style env style_name (emit GeneratingCV w)")
  have f2: "files w2 = files w"
    using files_select_style[of env style_name "emit GeneratingCV w"] s by simp
  show ?thesis
    using assms s f2
    by (cases e)
       (auto simp: create_resume_pdf_def create_resume_pdf_try_def Let_def
          split: sum.splits)
qed

theorem decode_failure_writes_nothing_witness:
  "create_resume_pdf b64decode (example_env ''abc'') example_parameters ''sk-example''
       (Some ''default'') (Some ''resume.pdf'') example_world
     = (Inl (BinasciiError ''Incorrect padding''),
        \<lparr>files = files example_world,
         logged = [GeneratingCV, UsingSelectedStyle ''default'',
                   ErrorDecodingBase64 (BinasciiError ''Incorrect padding''),
                   ErrorCreatingCV (BinasciiError ''Incorrect padding'')]\<rparr>)"
proof -
  let ?run = "create_resume_pdf b64decode (example_env ''abc'') example_parameters ''sk-example''
       (Some ''default'') (Some ''resume.pdf'') example_world"
  have b: "build_result (example_env ''abc'') = Inr ''abc''"
    by (simp add: example_env_def)
  have r: "read_plain_text_resume example_parameters (files example_world) = Inr ''name: Ada''"
    by (simp add: read_plain_text_resume_def example_parameters_def example_world_def
          plain_config_def minimal_config_def)
  from decode_failure_writes_nothing[where decode = b64decode and env = "example_env ''abc''"
      and payload = "''abc''" and parameters = example_parameters
      and llm_api_key = "''sk-example''" and style_name = "Some ''default''"
      and output_filename = "Some ''resume.pdf''" and w = example_world,
      OF b b64decode_abc] r
  have f: "files (snd ?run) = files example_world"
    and e: "fst ?run = Inl (BinasciiError ''Incorrect padding'')"
    by simp_all
  have lw: "logged example_world = []"
    by (simp add: example_world_def)
  have l: "logged (snd ?run) = [GeneratingCV, UsingSelectedStyle ''default'',
                   ErrorDecodingBase64 (BinasciiError ''Incorrect padding''),
                   ErrorCreatingCV (BinasciiError ''Incorrect padding'')]"
    by (simp add: create_resume_pdf_def create_resume_pdf_try_def Let_def r b b64decode_abc
          select_style_def STYLE_MAPPING_def lw)
  show ?thesis
    using f e l by (cases ?run) (auto simp: world.equality)
qed




text \<open>
  C10. A boolean \<^verbatim>\<open>distance\<close> is never rejected as a wrong type; with all other fields valid
  (the mapping is valid with \<^verbatim>\<open>distance\<close> bound to 0), \<^verbatim>\<open>false\<close> passes the whole validation
  and \<^verbatim>\<open>true\<close> fails with the invalid-distance error.
\<close>

theorem boolean_distance:
  assumes "load_yaml safe_load fs p = Inr (PDict (AList.update (PStr ''distance'') (PBool b) d))"
  shows "(\<forall>t. validate_config safe_load fs p
                \<noteq> Inl (ConfigError (InvalidType ''distance'' p t)))
       \<and> (\<forall>r. check_parameters p (PDict (AList.update (PStr ''distance'') (PInt 0) d)) = Inr r \<longrightarrow>
            (if b then validate_config safe_load fs p
                         = Inl (ConfigError (InvalidDistance (PBool True) p))
             else \<exists>r'. validate_config safe_load fs p = Inr r'))"
proof (intro conjI allI impI)
  let ?d = "AList.update (PStr ''distance'') (PBool b) d"
  fix t
  show "validate_config safe_load fs p \<noteq> Inl (ConfigError (InvalidType ''distance'' p t))"
  proof
    assume "validate_config safe_load fs p = Inl (ConfigError (InvalidType ''distance'' p t))"
    then have c: "check_parameters p (PDict ?d) = Inl (ConfigError (InvalidType ''distance'' p t))"
      using assms by (simp add: validate_config_def)
    show False
    proof (cases "find (\<lambda>item. \<not> key_ok ?d item) REQUIRED_CONFIG_KEYS")
      case (Some item)
      then have m: "item \<in> set REQUIRED_CONFIG_KEYS" and n: "\<not> key_ok ?d item"
        by (auto dest: find_SomeD)
      have e: "key_error p ?d item = ConfigError (InvalidType ''distance'' p t)"
        using c Some by (simp add: check_parameters_dict)
      from e have "fst item = ''distance''"
        by (cases item) (auto simp: key_error_def split: option.splits)
      with m have "item = (''distance'', int_t)"
        by (auto simp: REQUIRED_CONFIG_KEYS_def)
      with n show False by (simp add: key_ok_update)
    next
      case None
      then have ok: "\<forall>item \<in> set REQUIRED_CONFIG_KEYS. key_ok ?d item"
        by (auto simp: find_None_iff)
      from c None have "first_failure (later_stages p (PDict ?d))
                          = Some (ConfigError (InvalidType ''distance'' p t))"
        by (auto simp: check_parameters_dict split: option.splits)
      from later_stage_errors[OF ok this] show False
        by (simp add: later_stage_msg_def)
    qed
  qed
next
  fix r
  assume "check_parameters p (PDict (AList.update (PStr ''distance'') (PInt 0) d)) = Inr r"
  from distance_outcome[OF this, of "PBool b"] assms
  show "if b then validate_config safe_load fs p
                    = Inl (ConfigError (InvalidDistance (PBool True) p))
        else \<exists>r'. validate_config safe_load fs p = Inr r'"
    by (cases b) (simp_all add: validate_config_def validate_distance_def APPROVED_DISTANCES_def)
qed

theorem boolean_distance_witness:
  "(\<exists>r'. validate_config
            (answering (PDict (AList.update (PStr ''distance'') (PBool False) plain_config)))
            every_path_a_file config_path = Inr r') \<and>
   validate_config
     (answering (PDict (AList.update (PStr ''distance'') (PBool True) plain_config)))
     every_path_a_file config_path
     = Inl (ConfigError (InvalidDistance (PBool True) config_path))"
proof -
  have v: "check_parameters config_path
             (PDict (AList.update (PStr ''distance'') (PInt 0) plain_config))
             = Inr (PDict plain_config)"
    by (simp add: plain_config_distance_0) (simp add: plain_config_def check_parameters_minimal)
  show ?thesis
    using boolean_distance[OF load_answering, where p = config_path and b = False
            and d = plain_config]
      boolean_distance[OF load_answering, where p = config_path and b = True
            and d = plain_config] v
    by simp
qed

end
